theory Spec2Isabelle
  imports Main
begin

section \<open>The job feed of JobsPage.tsx: data model\<close>

text \<open>
  The page keeps its data in React state (\<^verbatim>\<open>useState\<close>) and in two refs
  (\<^verbatim>\<open>useRef\<close>). The model passes one record of all of them through every handler and
  returns it updated. What a handler shows to the user (toasts, native notifications,
  \<^verbatim>\<open>console.error\<close>) is appended to three logs in the same record, so that "no
  notification fired" is a statement about those logs.

  The body of a successful answer is taken to be what the page takes it to be: an array
  of job objects. The page itself provides for three fields that may be missing: the
  \<^verbatim>\<open>id\<close> (\<^verbatim>\<open>job.id != null\<close>), the title (\<^verbatim>\<open>job.title?.\<close> in the search filter)
  and the description (\<^verbatim>\<open>job.description || ...\<close>). So a job's \<^verbatim>\<open>id\<close> is
  \<^verbatim>\<open>null\<close>, absent (\<^verbatim>\<open>undefined\<close>), a number or a string, and its title and its
  description are strings or missing (\<open>None\<close>).

  Numeric ids are integers. \<open>String_of\<close> prints them in plain decimal, which is what
  \<^verbatim>\<open>String\<close> does for the integers a JSON number carries exactly (magnitude below
  \<open>2^53\<close>); larger and fractional ids are outside the model. No statement below depends
  on how a number is printed.
\<close>

datatype json_id = IdNull | IdUndefined | IdNum int | IdStr string

record job =
  job_id :: json_id
  title :: "string option"
  description :: "string option"
  status :: string

text \<open>\<^verbatim>\<open>String(n)\<close> for an integer: its decimal digits, with a minus sign.\<close>

fun string_of_nat :: "nat \<Rightarrow> string" where
  "string_of_nat n =
     (if n < 10 then [''0123456789'' ! n]
      else string_of_nat (n div 10) @ [''0123456789'' ! (n mod 10)])"

declare string_of_nat.simps [simp del]

text \<open>\<^verbatim>\<open>String(job.id)\<close>: \<^verbatim>\<open>null\<close> and \<^verbatim>\<open>undefined\<close> become the words.\<close>

fun String_of :: "json_id \<Rightarrow> string" where
  "String_of IdNull = ''null''"
| "String_of IdUndefined = ''undefined''"
| "String_of (IdNum n) =
     (if n < 0 then ''-'' @ string_of_nat (nat (- n)) else string_of_nat (nat n))"
| "String_of (IdStr s) = s"

text \<open>\<^verbatim>\<open>job.id != null\<close>: the loose comparison is false for \<^verbatim>\<open>null\<close> and \<^verbatim>\<open>undefined\<close>.\<close>

fun neq_null :: "json_id \<Rightarrow> bool" where
  "neq_null IdNull = False"
| "neq_null IdUndefined = False"
| "neq_null (IdNum n) = True"
| "neq_null (IdStr s) = True"

datatype relevance = All | Strong

datatype NotificationPermission = Granted | Denied | Default

text \<open>
  A fetch ends in a transport failure (the promise of \<^verbatim>\<open>fetch\<close> or of
  \<^verbatim>\<open>response.json()\<close> rejects), in a status that is not ok (the handler throws
  itself), or in the parsed list of jobs.
\<close>

datatype fetch_error = TransportFailure | HttpError nat

type_synonym response = "fetch_error + job list"

text \<open>
  What can be thrown inside the \<^verbatim>\<open>try\<close> block of \<^verbatim>\<open>fetchJobsByRelevance\<close>: the
  failure of the fetch, and the \<^verbatim>\<open>TypeError\<close> of \<^verbatim>\<open>jobTitle.length\<close> when
  \<^verbatim>\<open>showNotification\<close> is handed a missing title.
\<close>

datatype thrown = FetchFailed fetch_error | TypeError

text \<open>
  The toasts of the page, by their titles in the source:
  \<^item> \<open>ApiUnavailable\<close>: "API Unavailable", destructive;
  \<^item> \<open>NotificationError\<close>: "Notification Error", destructive;
  \<^item> \<open>NewStrongMatchJob d\<close>: "New Strong Match Job!" with description \<open>d\<close>
    (\<open>None\<close> when the description passed is \<^verbatim>\<open>undefined\<close>);
  \<^item> \<open>NewJobsFound n\<close>: "n New Strong Match Job(s) Found!";
  \<^item> \<open>NotificationsEnabledToast\<close>, \<open>NotificationsDisabledToast\<close>,
    \<open>PermissionDeniedToast\<close>: the three messages of the toggle.
\<close>

datatype toast =
    ApiUnavailable
  | NotificationError
  | NewStrongMatchJob "string option"
  | NewJobsFound nat
  | NotificationsEnabledToast
  | NotificationsDisabledToast
  | PermissionDeniedToast

datatype console_error =
    FailedToFetchJobs
  | ErrorFetchingJobsByRelevance
  | ErrorCreatingNotification
  | ErrorRequestingPermission

text \<open>The arguments of \<^verbatim>\<open>new Notification(title, options)\<close>.\<close>

record native_notification =
  ntitle :: string
  body :: string
  icon :: string
  tag :: string
  silent :: bool

text \<open>
  \<^verbatim>\<open>calculateAnalytics\<close> counts jobs by status. Its fifth figure, the sum of
  \<^verbatim>\<open>parseFloat(job.amount)\<close>, is a floating-point sum and is left out.
\<close>

record analytics =
  total_count :: nat
  active :: nat
  completed :: nat
  pending :: nat

definition calculateAnalytics :: "job list \<Rightarrow> analytics" where
  "calculateAnalytics jobsData =
     \<lparr> total_count = length jobsData,
       active = length (filter (\<lambda>j. status j = ''active'' \<or> status j = ''available'') jobsData),
       completed = length (filter (\<lambda>j. status j = ''completed'') jobsData),
       pending = length (filter (\<lambda>j. status j = ''submitted'' \<or> status j = ''in-progress'') jobsData) \<rparr>"

text \<open>
  What the handlers read from the platform: the current
  \<^verbatim>\<open>Notification.permission\<close>, whether the \<^verbatim>\<open>Notification\<close> constructor throws,
  and the clock. The page reads \<^verbatim>\<open>Notification.permission\<close> unguarded, and the DOM
  typings declare the global unconditionally, so \<^verbatim>\<open>"Notification" in window\<close> is true
  in the model.
\<close>

record env =
  permission :: NotificationPermission
  constructorThrows :: bool
  now :: nat

record page_state =
  jobs :: "job list"
  loading :: bool
  apiError :: bool
  analyticsState :: analytics
  relevanceFilter :: relevance
  previousStrongMatchJobIds :: "string set"
  isInitialRelevantJobsLoad :: bool
  notificationsEnabled :: bool
  storedPreference :: "string option"
  lastRefreshTime :: nat
  nextPollTime :: nat
  toasts :: "toast list"
  shown :: "native_notification list"
  consoleErrors :: "console_error list"

text \<open>The static fallback data, with the fields the feed reads.\<close>

definition sampleJobs :: "job list" where
  "sampleJobs =
     [ \<lparr> job_id = IdNum 1,
         title = Some ''React Developer Needed for E-commerce Platform'',
         description = Some ''We are looking for an experienced React developer to help us build a modern e-commerce platform. The ideal candidate should have experience with React, TypeScript, and modern web development practices.'',
         status = ''available'' \<rparr>,
       \<lparr> job_id = IdNum 2,
         title = Some ''WordPress Developer for Blog Redesign'',
         description = Some ''Need a skilled WordPress developer to redesign our company blog. Must have experience with custom themes, plugins, and WordPress best practices.'',
         status = ''in-progress'' \<rparr>,
       \<lparr> job_id = IdNum 3,
         title = Some ''Mobile App Developer for iOS and Android'',
         description = Some ''Looking for a mobile app developer to create a cross-platform application for both iOS and Android. Experience with React Native or Flutter is required.'',
         status = ''completed'' \<rparr> ]"

text \<open>
  The state when the component mounts: the enabled flag is read from local storage, the
  seen set is empty and the baseline flag is set.
\<close>

definition initial_state :: "env \<Rightarrow> string option \<Rightarrow> page_state" where
  "initial_state e stored =
     \<lparr> jobs = [],
       loading = True,
       apiError = False,
       analyticsState = \<lparr> total_count = 0, active = 0, completed = 0, pending = 0 \<rparr>,
       relevanceFilter = Strong,
       previousStrongMatchJobIds = {},
       isInitialRelevantJobsLoad = True,
       notificationsEnabled = (stored = Some ''true''),
       storedPreference = stored,
       lastRefreshTime = now e,
       nextPollTime = now e + 90000,
       toasts = [],
       shown = [],
       consoleErrors = [] \<rparr>"

section \<open>The handlers\<close>

text \<open>
  Each handler is modelled from its call to its completion, with the outcome of what it
  awaits (the answer of the server, the answer to the permission request) as an
  argument. Handlers run one after the other; two fetches in flight at once are not
  modelled. A handler built with \<^verbatim>\<open>useCallback\<close> reads \<^verbatim>\<open>notificationsEnabled\<close> and
  \<^verbatim>\<open>relevanceFilter\<close> from its closure, which React rebuilds whenever either changes;
  the model reads them from the state.
\<close>

subsection \<open>fetchJobsData\<close>

definition fetchJobsData :: "env \<Rightarrow> response \<Rightarrow> page_state \<Rightarrow> page_state" where
  "fetchJobsData e r st =
     (let st0 = st\<lparr> loading := True \<rparr>;
          st1 = (case r of
                   Inr data \<Rightarrow>
                     st0\<lparr> jobs := data,
                          apiError := False,
                          analyticsState := calculateAnalytics data,
                          lastRefreshTime := now e \<rparr>
                 | Inl err \<Rightarrow>
                     st0\<lparr> consoleErrors := consoleErrors st0 @ [FailedToFetchJobs],
                          jobs := sampleJobs,
                          apiError := True,
                          toasts := toasts st0 @ [ApiUnavailable],
                          analyticsState := calculateAnalytics sampleJobs \<rparr>)
      in st1\<lparr> loading := False \<rparr>)"

subsection \<open>showNotification\<close>

definition truncatedTitle :: "string \<Rightarrow> string" where
  "truncatedTitle jobTitle =
     (if length jobTitle > 100 then take 100 jobTitle @ ''...'' else jobTitle)"

definition truncatedDescription :: "string \<Rightarrow> string" where
  "truncatedDescription jobDescription =
     (if length jobDescription > 200 then take 200 jobDescription @ ''...''
      else jobDescription)"

text \<open>
  The title is read (\<^verbatim>\<open>jobTitle.length\<close>) before the inner \<^verbatim>\<open>try\<close>, and only when
  the permission is granted: there a missing title throws, before anything is shown.
  A throw of the constructor is caught inside and reported by a toast.
\<close>

definition showNotification ::
    "env \<Rightarrow> string option \<Rightarrow> string \<Rightarrow> page_state \<Rightarrow> thrown + page_state" where
  "showNotification e jobTitle jobDescription st =
     (if permission e = Granted then
        (case jobTitle of
           None \<Rightarrow> Inl TypeError
         | Some t \<Rightarrow>
             (let st1 =
                    (if constructorThrows e then
                       st\<lparr> consoleErrors := consoleErrors st @ [ErrorCreatingNotification],
                           toasts := toasts st @ [NotificationError] \<rparr>
                     else
                       st\<lparr> shown := shown st @
                             [\<lparr> ntitle = ''New Strong Match Job!'',
                                body = ''Details: '' @ truncatedTitle t @ [CHR 0x0A, CHR 0x0A]
                                         @ truncatedDescription jobDescription,
                                icon = ''/logo.png'',
                                tag = ''new-job-notification'',
                                silent = False \<rparr>] \<rparr>)
              in Inr (st1\<lparr> toasts := toasts st1 @ [NewStrongMatchJob (Some (truncatedTitle t))] \<rparr>)))
      else Inr (st\<lparr> toasts := toasts st @ [NewStrongMatchJob jobTitle] \<rparr>))"

subsection \<open>fetchJobsByRelevance\<close>

text \<open>\<^verbatim>\<open>job.description || 'No description available'\<close>: the default stands in for a
  missing and for an empty description.\<close>

definition descriptionOrDefault :: "job \<Rightarrow> string" where
  "descriptionOrDefault j =
     (case description j of
        None \<Rightarrow> ''No description available''
      | Some d \<Rightarrow> (if d = [] then ''No description available'' else d))"

text \<open>
  The first \<^verbatim>\<open>forEach\<close> over the new jobs: one \<^verbatim>\<open>showNotification\<close> each, in
  order. When a call throws the loop stops there; what the earlier calls have shown
  stays shown. \<open>Inl\<close> carries what was thrown and the state at that moment.
\<close>

fun notifyEach ::
    "env \<Rightarrow> job list \<Rightarrow> page_state \<Rightarrow> (thrown \<times> page_state) + page_state" where
  "notifyEach e [] st = Inr st"
| "notifyEach e (j # js) st =
     (case showNotification e (title j) (descriptionOrDefault j) st of
        Inl x \<Rightarrow> Inl (x, st)
      | Inr st' \<Rightarrow> notifyEach e js st')"

text \<open>The second \<^verbatim>\<open>forEach\<close>: each new id is added to the tracking set.\<close>

fun addEach :: "job list \<Rightarrow> string set \<Rightarrow> string set" where
  "addEach [] s = s"
| "addEach (j # js) s = addEach js (insert (String_of (job_id j)) s)"

definition validJobs :: "job list \<Rightarrow> job list" where
  "validJobs fetchedData = filter (\<lambda>j. neq_null (job_id j)) fetchedData"

definition newStrongMatchJobs :: "string set \<Rightarrow> job list \<Rightarrow> job list" where
  "newStrongMatchJobs previous fetchedData =
     filter (\<lambda>j. String_of (job_id j) \<notin> previous) (validJobs fetchedData)"

text \<open>The block guarded by \<^verbatim>\<open>if (notificationsEnabled)\<close>.\<close>

definition processNotifications ::
    "env \<Rightarrow> job list \<Rightarrow> page_state \<Rightarrow> (thrown \<times> page_state) + page_state" where
  "processNotifications e fetchedData st =
     (if notificationsEnabled st then
        (let currentJobIds = set (map (\<lambda>j. String_of (job_id j)) (validJobs fetchedData))
         in if isInitialRelevantJobsLoad st then
              Inr (st\<lparr> previousStrongMatchJobIds := currentJobIds,
                       isInitialRelevantJobsLoad := False \<rparr>)
            else
              (let new = newStrongMatchJobs (previousStrongMatchJobIds st) fetchedData
               in if length new > 0 then
                    (case notifyEach e new st of
                       Inl x \<Rightarrow> Inl x
                     | Inr st1 \<Rightarrow>
                         (let st2 = st1\<lparr> toasts := toasts st1 @ [NewJobsFound (length new)] \<rparr>
                          in Inr (st2\<lparr> previousStrongMatchJobIds :=
                                        addEach new (previousStrongMatchJobIds st2) \<rparr>)))
                  else Inr st))
      else Inr st)"

text \<open>The updater passed to \<^verbatim>\<open>setJobs\<close>.\<close>

definition updateJobs :: "relevance \<Rightarrow> bool \<Rightarrow> job list \<Rightarrow> job list \<Rightarrow> job list" where
  "updateJobs rel isPolling fetchedData prevJobs =
     (if rel = All \<or> \<not> isPolling then fetchedData
      else
        (let existingJobIds = set (map (\<lambda>j. String_of (job_id j)) prevJobs);
             newJobsToAdd = filter (\<lambda>j. String_of (job_id j) \<notin> existingJobIds) fetchedData
         in if length newJobsToAdd > 0 then newJobsToAdd @ prevJobs else prevJobs))"

text \<open>
  The \<^verbatim>\<open>try\<close> block. It ends normally (\<open>Inr\<close>) or with something thrown and the
  state at the throw (\<open>Inl\<close>): the failure of the fetch, thrown before anything is
  written, or the \<^verbatim>\<open>TypeError\<close> out of the notification loop, thrown before the seen
  set, the feed and the api-error flag are written.
\<close>

definition tryBlock ::
    "env \<Rightarrow> relevance \<Rightarrow> bool \<Rightarrow> response \<Rightarrow> page_state \<Rightarrow> (thrown \<times> page_state) + page_state" where
  "tryBlock e rel isPolling r st0 =
     (case r of
        Inl err \<Rightarrow> Inl (FetchFailed err, st0)
      | Inr fetchedData \<Rightarrow>
          (case (if rel = Strong then
                   (case processNotifications e fetchedData st0 of
                      Inl x \<Rightarrow> Inl x
                    | Inr sn \<Rightarrow>
                        Inr (sn\<lparr> previousStrongMatchJobIds :=
                                    set (map (\<lambda>j. String_of (job_id j)) fetchedData) \<rparr>))
                 else Inr st0) of
             Inl x \<Rightarrow> Inl x
           | Inr st1 \<Rightarrow>
               (let st2 =
                      (if \<not> isPolling \<or> (isPolling \<and> rel = Strong) then
                         st1\<lparr> jobs := updateJobs rel isPolling fetchedData (jobs st1) \<rparr>
                       else st1);
                    st3 = st2\<lparr> apiError := False,
                               analyticsState := calculateAnalytics fetchedData \<rparr>
                in Inr (if \<not> isPolling then st3\<lparr> lastRefreshTime := now e \<rparr> else st3))))"

text \<open>The \<^verbatim>\<open>catch\<close> block, run on the state at the throw.\<close>

definition catchBlock :: "bool \<Rightarrow> page_state \<Rightarrow> page_state" where
  "catchBlock isPolling s =
     (let st1 = s\<lparr> consoleErrors := consoleErrors s @ [ErrorFetchingJobsByRelevance] \<rparr>
      in if \<not> isPolling then
           st1\<lparr> jobs := sampleJobs,
                apiError := True,
                toasts := toasts st1 @ [ApiUnavailable],
                analyticsState := calculateAnalytics sampleJobs \<rparr>
         else st1)"

definition fetchJobsByRelevance ::
    "env \<Rightarrow> relevance \<Rightarrow> bool \<Rightarrow> response \<Rightarrow> page_state \<Rightarrow> page_state" where
  "fetchJobsByRelevance e rel isPolling r st =
     (let st0 = (if \<not> isPolling then st\<lparr> loading := True \<rparr> else st);
          st5 =
            (case tryBlock e rel isPolling r st0 of
               Inr s \<Rightarrow> s
             | Inl (x, s) \<Rightarrow> catchBlock isPolling s)
      in if \<not> isPolling then st5\<lparr> loading := False \<rparr> else st5)"

text \<open>
  What the \<^verbatim>\<open>catch\<close> clause of a call receives: \<open>None\<close> when the \<^verbatim>\<open>try\<close> block
  runs to its end, which is what makes a fetch a successful one for the page.
\<close>

definition caught ::
    "env \<Rightarrow> relevance \<Rightarrow> bool \<Rightarrow> response \<Rightarrow> page_state \<Rightarrow> thrown option" where
  "caught e rel isPolling r st =
     (case tryBlock e rel isPolling r (if \<not> isPolling then st\<lparr> loading := True \<rparr> else st) of
        Inr s \<Rightarrow> None
      | Inl (x, s) \<Rightarrow> Some x)"

subsection \<open>toggleNotifications\<close>

text \<open>
  \<^verbatim>\<open>await Notification.requestPermission()\<close> resolves to a permission or rejects; the
  outcome is an argument, read only on the path that asks.
\<close>

datatype request_outcome = Resolved NotificationPermission | Rejected

definition enableNow :: "page_state \<Rightarrow> page_state" where
  "enableNow st =
     st\<lparr> notificationsEnabled := True,
         storedPreference := Some ''true'',
         previousStrongMatchJobIds := {},
         isInitialRelevantJobsLoad := True,
         toasts := toasts st @ [NotificationsEnabledToast] \<rparr>"

definition toggleNotifications :: "env \<Rightarrow> request_outcome \<Rightarrow> page_state \<Rightarrow> page_state" where
  "toggleNotifications e outcome st =
     (if \<not> notificationsEnabled st then
        (if permission e = Granted then enableNow st
         else
           (case outcome of
              Resolved p \<Rightarrow>
                (if p = Granted then enableNow st
                 else st\<lparr> toasts := toasts st @ [PermissionDeniedToast] \<rparr>)
            | Rejected \<Rightarrow>
                st\<lparr> consoleErrors := consoleErrors st @ [ErrorRequestingPermission] \<rparr>))
      else
        st\<lparr> notificationsEnabled := False,
            storedPreference := Some ''false'',
            previousStrongMatchJobIds := {},
            isInitialRelevantJobsLoad := True,
            toasts := toasts st @ [NotificationsDisabledToast] \<rparr>)"

subsection \<open>Manual refresh and the body of the polling tick\<close>

definition handleManualRefresh :: "env \<Rightarrow> response \<Rightarrow> page_state \<Rightarrow> page_state" where
  "handleManualRefresh e r st =
     (if relevanceFilter st = Strong then fetchJobsByRelevance e Strong False r st
      else fetchJobsData e r st)"

text \<open>
  The callback given to \<^verbatim>\<open>setInterval\<close> in \<^verbatim>\<open>startPolling\<close>. The timer itself
  (when the browser calls the callback, what \<^verbatim>\<open>clearInterval\<close> cancels, when React
  runs the effects that start and stop it) is not part of the model.
\<close>

definition pollTick :: "env \<Rightarrow> response \<Rightarrow> page_state \<Rightarrow> page_state" where
  "pollTick e r st =
     (if relevanceFilter st = Strong \<and> notificationsEnabled st then
        (fetchJobsByRelevance e Strong True r st)\<lparr> nextPollTime := now e + 90000 \<rparr>
      else st)"

text \<open>A run of fetch cycles: manual refreshes and timer ticks, each with the answer of
  the server.\<close>

datatype cycle = ManualRefresh response | PollTick response

fun runCycle :: "env \<Rightarrow> cycle \<Rightarrow> page_state \<Rightarrow> page_state" where
  "runCycle e (ManualRefresh r) st = handleManualRefresh e r st"
| "runCycle e (PollTick r) st = pollTick e r st"

fun runCycles :: "env \<Rightarrow> cycle list \<Rightarrow> page_state \<Rightarrow> page_state" where
  "runCycles e [] st = st"
| "runCycles e (c # cs) st = runCycles e cs (runCycle e c st)"

section \<open>Concrete inputs\<close>

text \<open>A platform that has granted the permission, and six jobs: three with an id (two
  numbers, one string), one whose id is \<^verbatim>\<open>null\<close>, one without a title, and one whose
  description is the empty string.\<close>

definition env_granted :: env where
  "env_granted = \<lparr> permission = Granted, constructorThrows = False, now = 0 \<rparr>"

definition job_a :: job where
  "job_a = \<lparr> job_id = IdNum 1, title = Some ''A'', description = Some ''a'', status = ''active'' \<rparr>"

definition job_b :: job where
  "job_b = \<lparr> job_id = IdStr ''2'', title = Some ''B'', description = None, status = ''active'' \<rparr>"

definition job_c :: job where
  "job_c = \<lparr> job_id = IdNum 3, title = Some ''C'', description = Some ''c'', status = ''completed'' \<rparr>"

definition job_null :: job where
  "job_null = \<lparr> job_id = IdNull, title = Some ''N'', description = None, status = ''active'' \<rparr>"

definition job_untitled :: job where
  "job_untitled = \<lparr> job_id = IdNum 4, title = None, description = Some ''d'', status = ''active'' \<rparr>"

definition job_e :: job where
  "job_e = \<lparr> job_id = IdNum 5, title = Some ''E'', description = Some [], status = ''active'' \<rparr>"

lemmas ex_defs = env_granted_def job_a_def job_b_def job_c_def job_null_def job_untitled_def
  job_e_def initial_state_def

lemmas run_defs = fetchJobsByRelevance_def tryBlock_def catchBlock_def caught_def
  fetchJobsData_def processNotifications_def
  validJobs_def newStrongMatchJobs_def updateJobs_def showNotification_def Let_def
  string_of_nat.simps truncatedTitle_def truncatedDescription_def descriptionOrDefault_def
  calculateAnalytics_def toggleNotifications_def enableNow_def handleManualRefresh_def
  pollTick_def

section \<open>The notification loop\<close>

text \<open>A call of \<^verbatim>\<open>showNotification\<close> throws exactly when the permission is granted and
  the title is missing; otherwise it appends to the logs and touches nothing else.\<close>

lemma showNotification_Inl:
  "showNotification e t d st = Inl x \<longleftrightarrow> permission e = Granted \<and> t = None \<and> x = TypeError"
  by (auto simp: showNotification_def Let_def split: option.splits)

lemma showNotification_Inr:
  assumes "showNotification e t d st = Inr s"
  shows "s = st\<lparr> toasts := toasts st
                 @ (if permission e = Granted \<and> constructorThrows e then [NotificationError] else [])
                 @ [NewStrongMatchJob (if permission e = Granted then map_option truncatedTitle t else t)],
               shown := shown st
                 @ (if permission e = Granted \<and> \<not> constructorThrows e
                    then [\<lparr> ntitle = ''New Strong Match Job!'',
                            body = ''Details: '' @ truncatedTitle (the t) @ [CHR 0x0A, CHR 0x0A]
                                     @ truncatedDescription d,
                            icon = ''/logo.png'',
                            tag = ''new-job-notification'',
                            silent = False \<rparr>]
                    else []),
               consoleErrors := consoleErrors st
                 @ (if permission e = Granted \<and> constructorThrows e
                    then [ErrorCreatingNotification] else []) \<rparr>"
  using assms
  by (auto simp: showNotification_def Let_def split: option.splits if_splits)

text \<open>A loop that runs to its end has made one toast for each job, in order, and one
  native notification for each when the permission is granted and the constructor does
  not throw.\<close>

lemma notifyEach_Inr:
  assumes "notifyEach e js st = Inr s"
  shows "s = st\<lparr> toasts := toasts st
                 @ concat (map (\<lambda>j.
                     (if permission e = Granted \<and> constructorThrows e then [NotificationError] else [])
                     @ [NewStrongMatchJob
                          (if permission e = Granted then map_option truncatedTitle (title j)
                           else title j)]) js),
               shown := shown st
                 @ (if permission e = Granted \<and> \<not> constructorThrows e
                    then map (\<lambda>j.
                           \<lparr> ntitle = ''New Strong Match Job!'',
                             body = ''Details: '' @ truncatedTitle (the (title j))
                                      @ [CHR 0x0A, CHR 0x0A]
                                      @ truncatedDescription (descriptionOrDefault j),
                             icon = ''/logo.png'',
                             tag = ''new-job-notification'',
                             silent = False \<rparr>) js
                    else []),
               consoleErrors := consoleErrors st
                 @ (if permission e = Granted \<and> constructorThrows e
                    then replicate (length js) ErrorCreatingNotification else []) \<rparr>"
  using assms
proof (induction js arbitrary: st)
  case Nil
  then show ?case by simp
next
  case (Cons j js)
  from Cons.prems obtain st' where
    one: "showNotification e (title j) (descriptionOrDefault j) st = Inr st'"
    and rest: "notifyEach e js st' = Inr s"
    by (auto split: sum.splits)
  show ?case
    unfolding Cons.IH [OF rest] showNotification_Inr [OF one]
    by (simp add: replicate_append_same)
qed

lemma notifyEach_Inr_fields:
  assumes "notifyEach e js st = Inr s"
  shows "toasts s = toasts st
           @ concat (map (\<lambda>j.
               (if permission e = Granted \<and> constructorThrows e then [NotificationError] else [])
               @ [NewStrongMatchJob
                    (if permission e = Granted then map_option truncatedTitle (title j)
                     else title j)]) js)"
    and "shown s = shown st
           @ (if permission e = Granted \<and> \<not> constructorThrows e
              then map (\<lambda>j.
                     \<lparr> ntitle = ''New Strong Match Job!'',
                       body = ''Details: '' @ truncatedTitle (the (title j))
                                @ [CHR 0x0A, CHR 0x0A]
                                @ truncatedDescription (descriptionOrDefault j),
                       icon = ''/logo.png'',
                       tag = ''new-job-notification'',
                       silent = False \<rparr>) js
              else [])"
    and "jobs s = jobs st" and "loading s = loading st" and "apiError s = apiError st"
    and "previousStrongMatchJobIds s = previousStrongMatchJobIds st"
    and "isInitialRelevantJobsLoad s = isInitialRelevantJobsLoad st"
    and "notificationsEnabled s = notificationsEnabled st"
  by (simp_all add: notifyEach_Inr [OF assms])

lemma notifyEach_Inr_titles:
  assumes "notifyEach e js st = Inr s" and "permission e = Granted"
  shows "\<forall>j \<in> set js. title j \<noteq> None"
  using assms
proof (induction js arbitrary: st)
  case Nil
  then show ?case by simp
next
  case (Cons j js)
  from Cons.prems(1) obtain st' where
    one: "showNotification e (title j) (descriptionOrDefault j) st = Inr st'"
    and rest: "notifyEach e js st' = Inr s"
    by (auto split: sum.splits)
  from one Cons.prems(2) have "title j \<noteq> None"
    by (auto simp: showNotification_def split: option.splits)
  with Cons.IH [OF rest Cons.prems(2)] show ?case by simp
qed

text \<open>A loop that throws has met a job without title, with the permission granted, and
  has written nothing but the logs.\<close>

lemma notifyEach_Inl:
  assumes "notifyEach e js st = Inl (x, s)"
  shows "x = TypeError \<and> permission e = Granted \<and> (\<exists>j \<in> set js. title j = None) \<and>
         jobs s = jobs st \<and> loading s = loading st \<and> apiError s = apiError st \<and>
         previousStrongMatchJobIds s = previousStrongMatchJobIds st \<and>
         isInitialRelevantJobsLoad s = isInitialRelevantJobsLoad st \<and>
         notificationsEnabled s = notificationsEnabled st"
  using assms
proof (induction js arbitrary: st)
  case Nil
  then show ?case by simp
next
  case (Cons j js)
  show ?case
  proof (cases "showNotification e (title j) (descriptionOrDefault j) st")
    case (Inl y)
    with Cons.prems have "x = y" "s = st" by simp_all
    with Inl show ?thesis by (auto simp: showNotification_Inl)
  next
    case (Inr st')
    with Cons.prems have rest: "notifyEach e js st' = Inl (x, s)" by simp
    from Cons.IH [OF rest] showNotification_Inr [OF Inr] show ?thesis by auto
  qed
qed

lemma notifyEach_completes:
  assumes "permission e = Granted \<longrightarrow> (\<forall>j \<in> set js. title j \<noteq> None)"
  shows "\<exists>s. notifyEach e js st = Inr s"
proof (cases "notifyEach e js st")
  case (Inl p)
  then obtain x s where "notifyEach e js st = Inl (x, s)" by (cases p) simp
  from notifyEach_Inl [OF this] assms show ?thesis by auto
next
  case (Inr s)
  then show ?thesis by blast
qed

section \<open>The notification block\<close>

lemma processNotifications_disabled:
  "\<not> notificationsEnabled st \<Longrightarrow> processNotifications e S st = Inr st"
  by (simp add: processNotifications_def)

lemma processNotifications_baseline:
  assumes "isInitialRelevantJobsLoad st"
  obtains sn where "processNotifications e S st = Inr sn"
    and "toasts sn = toasts st" and "shown sn = shown st" and "jobs sn = jobs st"
    and "notificationsEnabled sn = notificationsEnabled st"
    and "isInitialRelevantJobsLoad sn = (\<not> notificationsEnabled st)"
  using assms by (cases "notificationsEnabled st") (simp_all add: processNotifications_def Let_def)

lemma processNotifications_Inl:
  assumes "processNotifications e S st = Inl (x, s)"
  shows "x = TypeError \<and> permission e = Granted \<and>
         notificationsEnabled st \<and> \<not> isInitialRelevantJobsLoad st \<and>
         (\<exists>j \<in> set (newStrongMatchJobs (previousStrongMatchJobIds st) S). title j = None) \<and>
         jobs s = jobs st \<and> loading s = loading st \<and> apiError s = apiError st \<and>
         previousStrongMatchJobIds s = previousStrongMatchJobIds st \<and>
         isInitialRelevantJobsLoad s = isInitialRelevantJobsLoad st \<and>
         notificationsEnabled s = notificationsEnabled st"
proof -
  let ?new = "newStrongMatchJobs (previousStrongMatchJobIds st) S"
  from assms have en: "notificationsEnabled st" and fl: "\<not> isInitialRelevantJobsLoad st"
    by (auto simp: processNotifications_def Let_def split: if_splits)
  with assms have "notifyEach e ?new st = Inl (x, s)"
    by (auto simp: processNotifications_def Let_def split: if_splits sum.splits)
  from notifyEach_Inl [OF this] en fl show ?thesis by simp
qed

lemma processNotifications_diff:
  assumes "notificationsEnabled st" and "\<not> isInitialRelevantJobsLoad st"
    and "processNotifications e S st = Inr sn"
  shows "toasts sn = toasts st
           @ concat (map (\<lambda>j.
               (if permission e = Granted \<and> constructorThrows e then [NotificationError] else [])
               @ [NewStrongMatchJob
                    (if permission e = Granted then map_option truncatedTitle (title j)
                     else title j)]) (newStrongMatchJobs (previousStrongMatchJobIds st) S))
           @ (if newStrongMatchJobs (previousStrongMatchJobIds st) S = [] then []
              else [NewJobsFound (length (newStrongMatchJobs (previousStrongMatchJobIds st) S))])"
      (is ?T)
    and "shown sn = shown st
           @ (if permission e = Granted \<and> \<not> constructorThrows e
              then map (\<lambda>j.
                     \<lparr> ntitle = ''New Strong Match Job!'',
                       body = ''Details: '' @ truncatedTitle (the (title j))
                                @ [CHR 0x0A, CHR 0x0A]
                                @ truncatedDescription (descriptionOrDefault j),
                       icon = ''/logo.png'',
                       tag = ''new-job-notification'',
                       silent = False \<rparr>) (newStrongMatchJobs (previousStrongMatchJobIds st) S)
              else [])"
      (is ?S)
    and "permission e = Granted \<longrightarrow>
           (\<forall>j \<in> set (newStrongMatchJobs (previousStrongMatchJobIds st) S). title j \<noteq> None)"
      (is ?N)
    and "jobs sn = jobs st" (is ?J)
    and "notificationsEnabled sn" (is ?E)
    and "\<not> isInitialRelevantJobsLoad sn" (is ?F)
proof -
  let ?new = "newStrongMatchJobs (previousStrongMatchJobIds st) S"
  have "?T \<and> ?S \<and> ?N \<and> ?J \<and> ?E \<and> ?F"
  proof (cases "?new = []")
    case True
    with assms have "sn = st" by (simp add: processNotifications_def Let_def)
    with True assms show ?thesis by simp
  next
    case False
    with assms obtain s1 where n: "notifyEach e ?new st = Inr s1"
      and sn: "sn = s1\<lparr> toasts := toasts s1 @ [NewJobsFound (length ?new)],
                         previousStrongMatchJobIds := addEach ?new (previousStrongMatchJobIds s1) \<rparr>"
      by (auto simp: processNotifications_def Let_def split: sum.splits)
    from False assms(1,2) notifyEach_Inr_titles [OF n] show ?thesis
      by (simp add: sn notifyEach_Inr_fields [OF n])
  qed
  then show ?T and ?S and ?N and ?J and ?E and ?F by blast+
qed

section \<open>A strong-match fetch\<close>

lemma addEach_set: "addEach js s = s \<union> set (map (\<lambda>j. String_of (job_id j)) js)"
  by (induction js arbitrary: s) auto


lemma new_none: "newStrongMatchJobs (set (map (\<lambda>j. String_of (job_id j)) S)) S = []"
  by (auto simp: newStrongMatchJobs_def validJobs_def filter_empty_conv)


text \<open>A strong-match fetch whose notification block ends normally, and one whose
  notification block throws.\<close>

lemma fetch_strong_Inr:
  assumes "processNotifications e S (if \<not> p then st\<lparr> loading := True \<rparr> else st) = Inr sn"
  shows "caught e Strong p (Inr S) st = None"
    and "previousStrongMatchJobIds (fetchJobsByRelevance e Strong p (Inr S) st) =
           set (map (\<lambda>j. String_of (job_id j)) S)"
    and "jobs (fetchJobsByRelevance e Strong p (Inr S) st) = updateJobs Strong p S (jobs sn)"
    and "toasts (fetchJobsByRelevance e Strong p (Inr S) st) = toasts sn"
    and "shown (fetchJobsByRelevance e Strong p (Inr S) st) = shown sn"
    and "isInitialRelevantJobsLoad (fetchJobsByRelevance e Strong p (Inr S) st) =
           isInitialRelevantJobsLoad sn"
    and "notificationsEnabled (fetchJobsByRelevance e Strong p (Inr S) st) =
           notificationsEnabled sn"
  using assms
  by (cases p; simp add: caught_def fetchJobsByRelevance_def tryBlock_def Let_def)+

lemma fetch_strong_Inl:
  assumes "processNotifications e S (if \<not> p then st\<lparr> loading := True \<rparr> else st) = Inl (x, s)"
  shows "caught e Strong p (Inr S) st = Some x"
    and "fetchJobsByRelevance e Strong p (Inr S) st =
           (if \<not> p then (catchBlock p s)\<lparr> loading := False \<rparr> else catchBlock p s)"
  using assms
  by (cases p; simp add: caught_def fetchJobsByRelevance_def tryBlock_def Let_def)+

lemma caught_strong_None:
  assumes "caught e Strong p (Inr S) st = None"
  obtains sn where
    "processNotifications e S (if \<not> p then st\<lparr> loading := True \<rparr> else st) = Inr sn"
  using assms
  by (cases "processNotifications e S (if \<not> p then st\<lparr> loading := True \<rparr> else st)")
     (auto simp: caught_def tryBlock_def split: prod.splits)

text \<open>The \<^verbatim>\<open>try\<close> block of a strong-match fetch that got its answer runs to its end
  unless notifications are enabled, the baseline is taken, the permission is granted and
  one of the new jobs has no title.\<close>

lemma caught_strong_iff:
  "caught e Strong p (Inr S) st = None \<longleftrightarrow>
     \<not> (notificationsEnabled st \<and> \<not> isInitialRelevantJobsLoad st \<and> permission e = Granted \<and>
        (\<exists>j \<in> set (newStrongMatchJobs (previousStrongMatchJobIds st) S). title j = None))"
proof (cases "processNotifications e S (if \<not> p then st\<lparr> loading := True \<rparr> else st)")
  case (Inl xs)
  then obtain x s where
    i: "processNotifications e S (if \<not> p then st\<lparr> loading := True \<rparr> else st) = Inl (x, s)"
    by (cases xs) simp
  from processNotifications_Inl [OF i] fetch_strong_Inl(1) [OF i] show ?thesis
    by (auto split: if_splits)
next
  case (Inr sn)
  have c: "caught e Strong p (Inr S) st = None" by (rule fetch_strong_Inr(1) [OF Inr])
  show ?thesis
  proof (cases "notificationsEnabled st \<and> \<not> isInitialRelevantJobsLoad st")
    case True
    then have "notificationsEnabled (if \<not> p then st\<lparr> loading := True \<rparr> else st)"
      and "\<not> isInitialRelevantJobsLoad (if \<not> p then st\<lparr> loading := True \<rparr> else st)"
      by simp_all
    from processNotifications_diff(3) [OF this Inr] c show ?thesis
      by (auto split: if_splits)
  next
    case False
    with c show ?thesis by blast
  qed
qed

lemma fetch_disabled:
  assumes "\<not> notificationsEnabled st"
  shows "caught e Strong p (Inr S) st = None"
    and "toasts (fetchJobsByRelevance e Strong p (Inr S) st) = toasts st"
    and "shown (fetchJobsByRelevance e Strong p (Inr S) st) = shown st"
    and "jobs (fetchJobsByRelevance e Strong p (Inr S) st) = updateJobs Strong p S (jobs st)"
    and "previousStrongMatchJobIds (fetchJobsByRelevance e Strong p (Inr S) st) =
           set (map (\<lambda>j. String_of (job_id j)) S)"
    and "isInitialRelevantJobsLoad (fetchJobsByRelevance e Strong p (Inr S) st) =
           isInitialRelevantJobsLoad st"
    and "\<not> notificationsEnabled (fetchJobsByRelevance e Strong p (Inr S) st)"
proof -
  let ?st0 = "if \<not> p then st\<lparr> loading := True \<rparr> else st"
  from assms have "\<not> notificationsEnabled ?st0" by simp
  then have pn: "processNotifications e S ?st0 = Inr ?st0"
    by (rule processNotifications_disabled)
  from assms show "caught e Strong p (Inr S) st = None"
    and "toasts (fetchJobsByRelevance e Strong p (Inr S) st) = toasts st"
    and "shown (fetchJobsByRelevance e Strong p (Inr S) st) = shown st"
    and "jobs (fetchJobsByRelevance e Strong p (Inr S) st) = updateJobs Strong p S (jobs st)"
    and "previousStrongMatchJobIds (fetchJobsByRelevance e Strong p (Inr S) st) =
           set (map (\<lambda>j. String_of (job_id j)) S)"
    and "isInitialRelevantJobsLoad (fetchJobsByRelevance e Strong p (Inr S) st) =
           isInitialRelevantJobsLoad st"
    and "\<not> notificationsEnabled (fetchJobsByRelevance e Strong p (Inr S) st)"
    by (simp_all add: fetch_strong_Inr [OF pn])
qed

lemma fetch_baseline:
  assumes "isInitialRelevantJobsLoad st"
  shows "caught e Strong p (Inr S) st = None"
    and "toasts (fetchJobsByRelevance e Strong p (Inr S) st) = toasts st"
    and "shown (fetchJobsByRelevance e Strong p (Inr S) st) = shown st"
    and "jobs (fetchJobsByRelevance e Strong p (Inr S) st) = updateJobs Strong p S (jobs st)"
    and "previousStrongMatchJobIds (fetchJobsByRelevance e Strong p (Inr S) st) =
           set (map (\<lambda>j. String_of (job_id j)) S)"
    and "isInitialRelevantJobsLoad (fetchJobsByRelevance e Strong p (Inr S) st) =
           (\<not> notificationsEnabled st)"
proof -
  let ?st0 = "if \<not> p then st\<lparr> loading := True \<rparr> else st"
  from assms have "isInitialRelevantJobsLoad ?st0" by simp
  then obtain sn where pn: "processNotifications e S ?st0 = Inr sn"
    and f: "toasts sn = toasts ?st0" "shown sn = shown ?st0" "jobs sn = jobs ?st0"
      "isInitialRelevantJobsLoad sn = (\<not> notificationsEnabled ?st0)"
    by (rule processNotifications_baseline)
  from f show "caught e Strong p (Inr S) st = None"
    and "toasts (fetchJobsByRelevance e Strong p (Inr S) st) = toasts st"
    and "shown (fetchJobsByRelevance e Strong p (Inr S) st) = shown st"
    and "jobs (fetchJobsByRelevance e Strong p (Inr S) st) = updateJobs Strong p S (jobs st)"
    and "previousStrongMatchJobIds (fetchJobsByRelevance e Strong p (Inr S) st) =
           set (map (\<lambda>j. String_of (job_id j)) S)"
    and "isInitialRelevantJobsLoad (fetchJobsByRelevance e Strong p (Inr S) st) =
           (\<not> notificationsEnabled st)"
    by (simp_all add: fetch_strong_Inr [OF pn])
qed

lemma fetch_strong_jobs:
  assumes "caught e Strong p (Inr S) st = None"
  shows "jobs (fetchJobsByRelevance e Strong p (Inr S) st) = updateJobs Strong p S (jobs st)"
proof -
  let ?st0 = "if \<not> p then st\<lparr> loading := True \<rparr> else st"
  from assms obtain sn where pn: "processNotifications e S ?st0 = Inr sn"
    by (rule caught_strong_None)
  have "jobs sn = jobs ?st0"
  proof (cases "notificationsEnabled ?st0")
    case False
    with pn show ?thesis by (simp add: processNotifications_disabled)
  next
    case en: True
    show ?thesis
    proof (cases "isInitialRelevantJobsLoad ?st0")
      case True
      then obtain sn' where "processNotifications e S ?st0 = Inr sn'" "jobs sn' = jobs ?st0"
        by (rule processNotifications_baseline)
      with pn show ?thesis by simp
    next
      case False
      from processNotifications_diff(4) [OF en False pn] show ?thesis .
    qed
  qed
  then show ?thesis by (simp add: fetch_strong_Inr(3) [OF pn])
qed


lemma fetch_again_completes:
  assumes "caught e Strong p (Inr S) st = None"
  shows "caught e Strong q (Inr S) (fetchJobsByRelevance e Strong p (Inr S) st) = None"
proof -
  from assms obtain sn where
    pn: "processNotifications e S (if \<not> p then st\<lparr> loading := True \<rparr> else st) = Inr sn"
    by (rule caught_strong_None)
  have "previousStrongMatchJobIds (fetchJobsByRelevance e Strong p (Inr S) st) =
          set (map (\<lambda>j. String_of (job_id j)) S)"
    by (rule fetch_strong_Inr(2) [OF pn])
  then show ?thesis
    by (simp only: caught_strong_iff new_none) simp
qed

text \<open>
  What the throw does, on a session with the baseline taken from job 1: the poll brings
  jobs 1 and 3, a new job without title, and job 2. Job 3 is alerted on; at the job
  without title \<^verbatim>\<open>jobTitle.length\<close> throws; job 2 is never reached, the seen set and
  the feed stay as they were, and the \<^verbatim>\<open>catch\<close> block logs the error.
\<close>

lemma untitled_job_aborts_fetch:
  "(let st1 = fetchJobsByRelevance env_granted Strong False (Inr [job_a])
                (initial_state env_granted (Some ''true''));
        st2 = fetchJobsByRelevance env_granted Strong True (Inr [job_a, job_c, job_untitled, job_b]) st1
    in caught env_granted Strong True (Inr [job_a, job_c, job_untitled, job_b]) st1 = Some TypeError \<and>
       toasts st2 = [NewStrongMatchJob (Some ''C'')] \<and>
       previousStrongMatchJobIds st2 = {''1''} \<and> jobs st2 = [job_a] \<and>
       consoleErrors st2 = [ErrorFetchingJobsByRelevance])"
  by (simp add: ex_defs run_defs)

section \<open>The merge of a background poll\<close>

lemma updateJobs_poll:
  "updateJobs Strong True S prev =
     filter (\<lambda>j. String_of (job_id j) \<notin> set (map (\<lambda>j. String_of (job_id j)) prev)) S @ prev"
  by (simp add: updateJobs_def Let_def)

text \<open>After one merge every id of the snapshot is in the list, so a second merge of the
  same snapshot finds nothing to add.\<close>

lemma updateJobs_poll_again:
  "updateJobs Strong True S (updateJobs Strong True S prev) = updateJobs Strong True S prev"
proof -
  have "filter (\<lambda>j. String_of (job_id j) \<notin>
            set (map (\<lambda>j. String_of (job_id j)) (updateJobs Strong True S prev))) S = []"
    by (auto simp: updateJobs_poll filter_empty_conv)
  then show ?thesis
    by (simp add: updateJobs_poll [of S "updateJobs Strong True S prev"])
qed

section \<open>Runs of fetch cycles with notifications disabled\<close>

lemma runCycles_append: "runCycles e (cs @ ds) st = runCycles e ds (runCycles e cs st)"
  by (induction cs arbitrary: st) simp_all

lemma runCycle_disabled:
  assumes "\<not> notificationsEnabled st"
  shows "\<not> notificationsEnabled (runCycle e c st)"
    and "shown (runCycle e c st) = shown st"
    and "filter (\<lambda>t. t \<noteq> ApiUnavailable) (toasts (runCycle e c st)) =
           filter (\<lambda>t. t \<noteq> ApiUnavailable) (toasts st)"
proof -
  have fail: "\<not> notificationsEnabled (fetchJobsByRelevance e Strong False (Inl err) st) \<and>
              shown (fetchJobsByRelevance e Strong False (Inl err) st) = shown st \<and>
              toasts (fetchJobsByRelevance e Strong False (Inl err) st) =
                toasts st @ [ApiUnavailable]" for err
    using assms by (simp add: fetchJobsByRelevance_def tryBlock_def catchBlock_def Let_def)
  note ok = fetch_disabled(2,3,7) [OF assms, of e False]
  have "\<not> notificationsEnabled (runCycle e c st) \<and> shown (runCycle e c st) = shown st \<and>
        filter (\<lambda>t. t \<noteq> ApiUnavailable) (toasts (runCycle e c st)) =
           filter (\<lambda>t. t \<noteq> ApiUnavailable) (toasts st)"
  proof (cases c)
    case (ManualRefresh r)
    show ?thesis
    proof (cases "relevanceFilter st")
      case All
      with ManualRefresh assms show ?thesis
        by (cases r) (simp_all add: handleManualRefresh_def fetchJobsData_def Let_def)
    next
      case Strong
      with ManualRefresh fail ok show ?thesis
        by (cases r) (simp_all add: handleManualRefresh_def)
    qed
  next
    case (PollTick r)
    with assms show ?thesis by (simp add: pollTick_def)
  qed
  then show "\<not> notificationsEnabled (runCycle e c st)"
    and "shown (runCycle e c st) = shown st"
    and "filter (\<lambda>t. t \<noteq> ApiUnavailable) (toasts (runCycle e c st)) =
           filter (\<lambda>t. t \<noteq> ApiUnavailable) (toasts st)"
    by simp_all
qed

lemma runCycles_disabled:
  assumes "\<not> notificationsEnabled st"
  shows "\<not> notificationsEnabled (runCycles e cs st) \<and>
         shown (runCycles e cs st) = shown st \<and>
         filter (\<lambda>t. t \<noteq> ApiUnavailable) (toasts (runCycles e cs st)) =
           filter (\<lambda>t. t \<noteq> ApiUnavailable) (toasts st)"
  using assms
proof (induction cs arbitrary: st)
  case Nil
  then show ?case by simp
next
  case (Cons c cs)
  from Cons.prems have d: "\<not> notificationsEnabled (runCycle e c st)"
    by (rule runCycle_disabled(1))
  from Cons.IH [OF d] runCycle_disabled(2,3) [OF Cons.prems, of e c]
  show ?case by simp
qed

lemma manual_refresh_jobs:
  assumes "\<not> notificationsEnabled st"
  shows "jobs (handleManualRefresh e (Inr S) st) = S"
  using fetch_disabled(4) [OF assms, of e False S]
  by (simp add: handleManualRefresh_def updateJobs_def fetchJobsData_def)

section \<open>The two branches of the toggle\<close>

lemma enable_resets:
  assumes "\<not> notificationsEnabled s" and "permission e = Granted"
  shows "toggleNotifications e outcome s =
           s\<lparr> notificationsEnabled := True,
              storedPreference := Some ''true'',
              previousStrongMatchJobIds := {},
              isInitialRelevantJobsLoad := True,
              toasts := toasts s @ [NotificationsEnabledToast] \<rparr>"
  using assms by (simp add: toggleNotifications_def enableNow_def)

lemma disable_resets:
  assumes "notificationsEnabled s"
  shows "toggleNotifications e outcome s =
           s\<lparr> notificationsEnabled := False,
              storedPreference := Some ''false'',
              previousStrongMatchJobIds := {},
              isInitialRelevantJobsLoad := True,
              toasts := toasts s @ [NotificationsDisabledToast] \<rparr>"
  using assms by (simp add: toggleNotifications_def)

section \<open>Baseline adoption\<close>

text \<open>
  C1. When the baseline flag (\<^verbatim>\<open>isInitialRelevantJobsLoad\<close>) is set, the first
  strong-match fetch fires no notification whatever the snapshot holds, and the seen set
  is replaced by the normalised ids of the snapshot. As stated, the claim also has the
  flag flip to false. On the code the flag is cleared inside the block guarded by
  \<^verbatim>\<open>if (notificationsEnabled)\<close>: it flips when notifications are enabled and stays set
  when they are disabled. The theorem is the claim with that amendment: no toast and no
  native notification is added, the seen set is the set of \<^verbatim>\<open>String(job.id)\<close> over the
  snapshot, and the flag afterwards is the negation of the enabled flag.
\<close>

theorem baseline_adoption:
  assumes "isInitialRelevantJobsLoad st"
  shows "toasts (fetchJobsByRelevance e Strong p (Inr S) st) = toasts st \<and>
         shown (fetchJobsByRelevance e Strong p (Inr S) st) = shown st \<and>
         previousStrongMatchJobIds (fetchJobsByRelevance e Strong p (Inr S) st) =
           set (map (\<lambda>j. String_of (job_id j)) S) \<and>
         isInitialRelevantJobsLoad (fetchJobsByRelevance e Strong p (Inr S) st) =
           (\<not> notificationsEnabled st)"
  using fetch_baseline [OF assms, of e p S] by simp

text \<open>The theorem at the start of a session whose stored preference is "true", on a
  snapshot of two jobs.\<close>

theorem baseline_adoption_witness:
  "isInitialRelevantJobsLoad (initial_state env_granted (Some ''true'')) \<and>
   toasts (fetchJobsByRelevance env_granted Strong False (Inr [job_a, job_b])
      (initial_state env_granted (Some ''true''))) = [] \<and>
   shown (fetchJobsByRelevance env_granted Strong False (Inr [job_a, job_b])
      (initial_state env_granted (Some ''true''))) = [] \<and>
   previousStrongMatchJobIds (fetchJobsByRelevance env_granted Strong False (Inr [job_a, job_b])
      (initial_state env_granted (Some ''true''))) = {''1'', ''2''} \<and>
   isInitialRelevantJobsLoad (fetchJobsByRelevance env_granted Strong False (Inr [job_a, job_b])
      (initial_state env_granted (Some ''true''))) = False"
proof -
  have h: "isInitialRelevantJobsLoad (initial_state env_granted (Some ''true''))"
    by (simp add: initial_state_def)
  show ?thesis
    using h baseline_adoption [OF h, of env_granted False "[job_a, job_b]"]
    by (simp add: ex_defs string_of_nat.simps)
qed

text \<open>
  C1, the claim as stated fails: a session starts with nothing in local storage, so
  notifications are disabled and the flag is set; after the first strong-match fetch the
  flag is still set.
\<close>

theorem baseline_flag_stays_when_disabled:
  "isInitialRelevantJobsLoad (initial_state env_granted None) \<and>
   isInitialRelevantJobsLoad
     (fetchJobsByRelevance env_granted Strong False (Inr [job_a]) (initial_state env_granted None))"
  by (simp add: ex_defs run_defs)

section \<open>The diff against the previous snapshot\<close>




section \<open>The seen set after a fetch\<close>




section \<open>Merging a background poll into the feed\<close>

text \<open>
  C4. The merge of a background poll in strong-match mode is the updater given to
  \<^verbatim>\<open>setJobs\<close>. It puts in front of the previous feed exactly the snapshot items whose
  normalised id is not the id of an item already in the feed, in snapshot order, and
  keeps the previous feed behind them as it was; when there is no such item it returns
  the previous feed; and merging the same snapshot a second time gives the feed of the
  first merge. A poll whose \<^verbatim>\<open>try\<close> block runs to its end sets the feed to that merge;
  the same poll again then runs to its end too and leaves the feed as the first left
  it.
\<close>

theorem background_merge_prepends:
  "updateJobs Strong True S prev =
     filter (\<lambda>j. String_of (job_id j) \<notin> set (map (\<lambda>j. String_of (job_id j)) prev)) S @ prev \<and>
   (filter (\<lambda>j. String_of (job_id j) \<notin> set (map (\<lambda>j. String_of (job_id j)) prev)) S = []
      \<longrightarrow> updateJobs Strong True S prev = prev) \<and>
   updateJobs Strong True S (updateJobs Strong True S prev) = updateJobs Strong True S prev \<and>
   (caught e Strong True (Inr S) st = None \<longrightarrow>
      jobs (fetchJobsByRelevance e Strong True (Inr S) st) =
        filter (\<lambda>j. String_of (job_id j) \<notin> set (map (\<lambda>j. String_of (job_id j)) (jobs st))) S
          @ jobs st \<and>
      caught e Strong True (Inr S) (fetchJobsByRelevance e Strong True (Inr S) st) = None \<and>
      jobs (fetchJobsByRelevance e Strong True (Inr S)
              (fetchJobsByRelevance e Strong True (Inr S) st)) =
        jobs (fetchJobsByRelevance e Strong True (Inr S) st))"
proof -
  let ?new = "filter (\<lambda>j. String_of (job_id j) \<notin>
                 set (map (\<lambda>j. String_of (job_id j)) prev)) S"
  have merged: "updateJobs Strong True S prev = ?new @ prev"
    by (rule updateJobs_poll)
  have same: "?new = [] \<longrightarrow> updateJobs Strong True S prev = prev"
    by (simp add: merged)
  have again: "updateJobs Strong True S (updateJobs Strong True S prev) =
                 updateJobs Strong True S prev"
    by (rule updateJobs_poll_again)
  have handler: "caught e Strong True (Inr S) st = None \<longrightarrow>
      jobs (fetchJobsByRelevance e Strong True (Inr S) st) =
        filter (\<lambda>j. String_of (job_id j) \<notin> set (map (\<lambda>j. String_of (job_id j)) (jobs st))) S
          @ jobs st \<and>
      caught e Strong True (Inr S) (fetchJobsByRelevance e Strong True (Inr S) st) = None \<and>
      jobs (fetchJobsByRelevance e Strong True (Inr S)
              (fetchJobsByRelevance e Strong True (Inr S) st)) =
        jobs (fetchJobsByRelevance e Strong True (Inr S) st)"
  proof
    assume c: "caught e Strong True (Inr S) st = None"
    note c' = fetch_again_completes [OF c, of True]
    show "jobs (fetchJobsByRelevance e Strong True (Inr S) st) =
        filter (\<lambda>j. String_of (job_id j) \<notin> set (map (\<lambda>j. String_of (job_id j)) (jobs st))) S
          @ jobs st \<and>
      caught e Strong True (Inr S) (fetchJobsByRelevance e Strong True (Inr S) st) = None \<and>
      jobs (fetchJobsByRelevance e Strong True (Inr S)
              (fetchJobsByRelevance e Strong True (Inr S) st)) =
        jobs (fetchJobsByRelevance e Strong True (Inr S) st)"
      using c' by (simp only: fetch_strong_jobs [OF c] fetch_strong_jobs [OF c']
                     updateJobs_poll_again) (simp add: updateJobs_poll)
  qed
  from merged same again handler show ?thesis by (intro conjI)
qed

text \<open>The theorem on a feed that holds job 1: a poll with jobs 1, 2, 3 puts 2 and 3 in
  front; the same poll again changes nothing; merging job 1 alone changes nothing.\<close>

theorem background_merge_prepends_witness:
  "(let st1 = fetchJobsByRelevance env_granted Strong False (Inr [job_a])
                (initial_state env_granted (Some ''true''));
        st2 = fetchJobsByRelevance env_granted Strong True (Inr [job_a, job_b, job_c]) st1;
        st3 = fetchJobsByRelevance env_granted Strong True (Inr [job_a, job_b, job_c]) st2
    in caught env_granted Strong True (Inr [job_a, job_b, job_c]) st1 = None \<and>
       jobs st1 = [job_a] \<and> jobs st2 = [job_b, job_c, job_a] \<and> jobs st3 = [job_b, job_c, job_a] \<and>
       updateJobs Strong True [job_a] [job_a] = [job_a])"
  using background_merge_prepends [of "[job_a, job_b, job_c]" "[job_a]" env_granted
              "fetchJobsByRelevance env_granted Strong False (Inr [job_a])
                (initial_state env_granted (Some ''true''))"]
        background_merge_prepends [of "[job_a]" "[job_a]" env_granted
              "fetchJobsByRelevance env_granted Strong False (Inr [job_a])
                (initial_state env_granted (Some ''true''))"]
  by (simp add: ex_defs run_defs)

section \<open>Failed fetches\<close>

text \<open>
  C5. As stated, every failed fetch falls back to the sample jobs and shows the
  "API Unavailable" warning. On the code the fallback is guarded by
  \<^verbatim>\<open>if (!isPolling)\<close>. The theorem is the amended claim: a failed fetch that is not a
  background poll (\<^verbatim>\<open>fetchJobsByRelevance\<close> with \<^verbatim>\<open>isPolling\<close> false,
  \<^verbatim>\<open>fetchJobsData\<close>, and so the manual refresh in either mode) sets the feed to the
  sample jobs, sets the api-error flag, adds the warning toast and clears the loading
  indicator; a failed background poll leaves the feed and the toasts as they were.
\<close>

theorem foreground_failure_falls_back:
  "(jobs (fetchJobsByRelevance e rel False (Inl err) st) = sampleJobs \<and>
    apiError (fetchJobsByRelevance e rel False (Inl err) st) \<and>
    toasts (fetchJobsByRelevance e rel False (Inl err) st) = toasts st @ [ApiUnavailable] \<and>
    \<not> loading (fetchJobsByRelevance e rel False (Inl err) st)) \<and>
   (jobs (fetchJobsData e (Inl err) st) = sampleJobs \<and>
    apiError (fetchJobsData e (Inl err) st) \<and>
    toasts (fetchJobsData e (Inl err) st) = toasts st @ [ApiUnavailable] \<and>
    \<not> loading (fetchJobsData e (Inl err) st)) \<and>
   (jobs (handleManualRefresh e (Inl err) st) = sampleJobs \<and>
    apiError (handleManualRefresh e (Inl err) st) \<and>
    toasts (handleManualRefresh e (Inl err) st) = toasts st @ [ApiUnavailable] \<and>
    \<not> loading (handleManualRefresh e (Inl err) st)) \<and>
   (jobs (fetchJobsByRelevance e rel True (Inl err) st) = jobs st \<and>
    toasts (fetchJobsByRelevance e rel True (Inl err) st) = toasts st)"
  by (simp add: fetchJobsByRelevance_def tryBlock_def catchBlock_def fetchJobsData_def
        handleManualRefresh_def Let_def)

text \<open>The theorem on a feed that holds job 1, when a manual fetch ends in status 500.\<close>

theorem foreground_failure_falls_back_witness:
  "(let st1 = fetchJobsByRelevance env_granted Strong False (Inr [job_a])
                (initial_state env_granted (Some ''true''));
        st2 = fetchJobsByRelevance env_granted Strong False (Inl (HttpError 500)) st1
    in jobs st1 = [job_a] \<and> jobs st2 = sampleJobs \<and> apiError st2 \<and>
       toasts st2 = [ApiUnavailable] \<and> loading st2 = False)"
  using foreground_failure_falls_back [of env_granted Strong "HttpError 500"
              "fetchJobsByRelevance env_granted Strong False (Inr [job_a])
                (initial_state env_granted (Some ''true''))"]
  by (simp add: ex_defs run_defs)

text \<open>
  C5, the claim as stated fails: the feed holds job 1 and a background poll ends in
  status 500; the feed still holds job 1, not the sample jobs, the api-error flag is
  clear and no toast was added.
\<close>

theorem polling_failure_no_fallback:
  "(let st1 = fetchJobsByRelevance env_granted Strong False (Inr [job_a])
                (initial_state env_granted (Some ''true''));
        st2 = fetchJobsByRelevance env_granted Strong True (Inl (HttpError 500)) st1
    in jobs st2 = [job_a] \<and> jobs st2 \<noteq> sampleJobs \<and> apiError st2 = False \<and> toasts st2 = [])"
  by (simp add: ex_defs run_defs sampleJobs_def)

text \<open>
  C10. A failed fetch with \<^verbatim>\<open>isPolling\<close> true changes nothing but the console: the
  state afterwards is the state before with one more \<^verbatim>\<open>console.error\<close> entry. In
  particular the feed, the seen set, the baseline flag, the api-error flag and the
  loading indicator keep their values, the sample jobs are not loaded, and no toast and
  no native notification is added.
\<close>

theorem failed_poll_changes_nothing:
  "fetchJobsByRelevance e rel True (Inl err) st =
     st\<lparr> consoleErrors := consoleErrors st @ [ErrorFetchingJobsByRelevance] \<rparr> \<and>
   jobs (fetchJobsByRelevance e rel True (Inl err) st) = jobs st \<and>
   previousStrongMatchJobIds (fetchJobsByRelevance e rel True (Inl err) st) =
     previousStrongMatchJobIds st \<and>
   isInitialRelevantJobsLoad (fetchJobsByRelevance e rel True (Inl err) st) =
     isInitialRelevantJobsLoad st \<and>
   apiError (fetchJobsByRelevance e rel True (Inl err) st) = apiError st \<and>
   loading (fetchJobsByRelevance e rel True (Inl err) st) = loading st \<and>
   toasts (fetchJobsByRelevance e rel True (Inl err) st) = toasts st \<and>
   shown (fetchJobsByRelevance e rel True (Inl err) st) = shown st"
  by (simp add: fetchJobsByRelevance_def tryBlock_def catchBlock_def Let_def)

text \<open>The theorem on a feed that holds job 1, when the poll fails in transport.\<close>

theorem failed_poll_changes_nothing_witness:
  "(let st1 = fetchJobsByRelevance env_granted Strong False (Inr [job_a])
                (initial_state env_granted (Some ''true''));
        st2 = fetchJobsByRelevance env_granted Strong True (Inl TransportFailure) st1
    in jobs st2 = [job_a] \<and> previousStrongMatchJobIds st2 = {''1''} \<and>
       isInitialRelevantJobsLoad st2 = False \<and> apiError st2 = False \<and>
       loading st2 = False \<and> toasts st2 = [] \<and> shown st2 = [] \<and>
       consoleErrors st2 = [ErrorFetchingJobsByRelevance])"
  using failed_poll_changes_nothing [of env_granted Strong TransportFailure
              "fetchJobsByRelevance env_granted Strong False (Inr [job_a])
                (initial_state env_granted (Some ''true''))"]
  by (simp add: ex_defs run_defs)

section \<open>The toggle\<close>

text \<open>
  C7. With the platform permission granted, \<^verbatim>\<open>enable()\<close> from any disabled state,
  whatever its seen set and its flag, gives that state with notifications enabled, the
  preference stored, the seen set empty, the baseline flag set and the confirmation
  toast added; and the strong-match fetch that follows adds no toast and no native
  notification, whatever the snapshot. So for the round trip from an enabled state:
  \<^verbatim>\<open>disable()\<close>, then any run of fetch cycles while disabled (a manual refresh there
  fills the seen set again), then \<^verbatim>\<open>enable()\<close> leaves notifications enabled, the seen
  set empty and the flag set, and the next strong-match fetch is silent, in particular
  for a snapshot that was seen before and has not changed.
\<close>

theorem toggle_round_trip:
  assumes "notificationsEnabled st" and "permission e = Granted"
    and "\<not> notificationsEnabled s"
  shows "(let st1 = toggleNotifications e o1 st;
              st2 = runCycles e cs st1;
              st3 = toggleNotifications e o2 st2;
              st4 = fetchJobsByRelevance e Strong p (Inr S) st3
          in notificationsEnabled st1 = False \<and>
             notificationsEnabled st2 = False \<and>
             notificationsEnabled st3 = True \<and>
             previousStrongMatchJobIds st3 = {} \<and>
             isInitialRelevantJobsLoad st3 = True \<and>
             toasts st4 = toasts st3 \<and>
             shown st4 = shown st3) \<and>
         (let s1 = toggleNotifications e o3 s;
              s2 = fetchJobsByRelevance e Strong p (Inr S) s1
          in s1 = s\<lparr> notificationsEnabled := True,
                     storedPreference := Some ''true'',
                     previousStrongMatchJobIds := {},
                     isInitialRelevantJobsLoad := True,
                     toasts := toasts s @ [NotificationsEnabledToast] \<rparr> \<and>
             toasts s2 = toasts s1 \<and>
             shown s2 = shown s1)"
proof -
  have after_enable: "toasts (fetchJobsByRelevance e Strong p (Inr S) (toggleNotifications e oc x)) =
                        toasts (toggleNotifications e oc x) \<and>
                      shown (fetchJobsByRelevance e Strong p (Inr S) (toggleNotifications e oc x)) =
                        shown (toggleNotifications e oc x)"
    if "\<not> notificationsEnabled x" for x oc
  proof -
    have "isInitialRelevantJobsLoad (toggleNotifications e oc x)"
      by (simp add: enable_resets [OF that assms(2)])
    from fetch_baseline(2,3) [OF this] show ?thesis by simp
  qed
  define st1 where "st1 = toggleNotifications e o1 st"
  define st2 where "st2 = runCycles e cs st1"
  have d1: "notificationsEnabled st1 = False"
    by (simp add: st1_def disable_resets [OF assms(1)])
  then have d2: "notificationsEnabled st2 = False"
    using runCycles_disabled [of st1 e cs] by (simp add: st2_def)
  then have n2: "\<not> notificationsEnabled st2" by simp
  have r: "notificationsEnabled (toggleNotifications e o2 st2) = True"
    "previousStrongMatchJobIds (toggleNotifications e o2 st2) = {}"
    "isInitialRelevantJobsLoad (toggleNotifications e o2 st2) = True"
    by (simp_all add: enable_resets [OF n2 assms(2)])
  have first: "notificationsEnabled st1 = False \<and>
             notificationsEnabled st2 = False \<and>
             notificationsEnabled (toggleNotifications e o2 st2) = True \<and>
             previousStrongMatchJobIds (toggleNotifications e o2 st2) = {} \<and>
             isInitialRelevantJobsLoad (toggleNotifications e o2 st2) = True \<and>
             toasts (fetchJobsByRelevance e Strong p (Inr S) (toggleNotifications e o2 st2)) =
               toasts (toggleNotifications e o2 st2) \<and>
             shown (fetchJobsByRelevance e Strong p (Inr S) (toggleNotifications e o2 st2)) =
               shown (toggleNotifications e o2 st2)"
    using d1 d2 r after_enable [OF n2, of o2] by simp
  have second: "toggleNotifications e o3 s =
                  s\<lparr> notificationsEnabled := True,
                     storedPreference := Some ''true'',
                     previousStrongMatchJobIds := {},
                     isInitialRelevantJobsLoad := True,
                     toasts := toasts s @ [NotificationsEnabledToast] \<rparr> \<and>
             toasts (fetchJobsByRelevance e Strong p (Inr S) (toggleNotifications e o3 s)) =
               toasts (toggleNotifications e o3 s) \<and>
             shown (fetchJobsByRelevance e Strong p (Inr S) (toggleNotifications e o3 s)) =
               shown (toggleNotifications e o3 s)"
    using enable_resets [OF assms(3,2), of o3] after_enable [OF assms(3), of o3] by simp
  show ?thesis
    unfolding Let_def st1_def [symmetric] st2_def [symmetric]
    using first second by (rule conjI)
qed

text \<open>The theorem after a fetch of jobs 1 and 2: off, a manual refresh with the same two
  jobs (the seen set holds them again), on (the seen set is empty), and the same
  snapshot again; the only toasts are the two confirmations of the toggle.\<close>

theorem toggle_round_trip_witness:
  "(let st = fetchJobsByRelevance env_granted Strong False (Inr [job_a, job_b])
                (initial_state env_granted (Some ''true''));
        st1 = toggleNotifications env_granted Rejected st;
        st2 = runCycles env_granted [ManualRefresh (Inr [job_a, job_b])] st1;
        st3 = toggleNotifications env_granted Rejected st2;
        st4 = fetchJobsByRelevance env_granted Strong False (Inr [job_a, job_b]) st3
    in notificationsEnabled st \<and> permission env_granted = Granted \<and>
       \<not> notificationsEnabled st2 \<and>
       previousStrongMatchJobIds st = {''1'', ''2''} \<and>
       previousStrongMatchJobIds st1 = {} \<and>
       previousStrongMatchJobIds st2 = {''1'', ''2''} \<and>
       previousStrongMatchJobIds st3 = {} \<and> isInitialRelevantJobsLoad st3 \<and>
       toasts st4 = [NotificationsDisabledToast, NotificationsEnabledToast] \<and>
       shown st4 = [])"
proof -
  have h1: "notificationsEnabled (fetchJobsByRelevance env_granted Strong False (Inr [job_a, job_b])
                (initial_state env_granted (Some ''true'')))"
    by (simp add: ex_defs run_defs)
  have h2: "permission env_granted = Granted"
    by (simp add: env_granted_def)
  have h3: "\<not> notificationsEnabled
              (runCycles env_granted [ManualRefresh (Inr [job_a, job_b])]
                (toggleNotifications env_granted Rejected
                  (fetchJobsByRelevance env_granted Strong False (Inr [job_a, job_b])
                    (initial_state env_granted (Some ''true'')))))"
    by (simp add: ex_defs run_defs)
  show ?thesis
    using h1 h2 h3
      toggle_round_trip [OF h1 h2 h3, of Rejected "[ManualRefresh (Inr [job_a, job_b])]"
        Rejected False "[job_a, job_b]" Rejected]
    by (simp add: ex_defs run_defs)
qed

section \<open>The body of the native notification\<close>

text \<open>
  C8. As stated, the body holds the item's title and the item's description, each cut
  to its limit. On the code the description handed to \<^verbatim>\<open>showNotification\<close> is
  \<^verbatim>\<open>job.description || 'No description available'\<close>: for an item without description,
  or with the empty string for one, the body holds those words instead. The theorem is
  the amended claim, for an item that has a title (what a missing title does is no part
  of it), with the permission granted and a constructor that does not throw: the item is
  alerted on by one native notification whose body is "Details: ", the title, an empty
  line and the description text, where the description text is the item's description
  when it is present and not empty and the words "No description available" otherwise;
  a title of at most 100 characters and a description text of at most 200 characters
  stand unchanged, and a longer one is cut to its first 100 (200) characters followed by
  "...", each on its own. The same holds of \<^verbatim>\<open>showNotification\<close> for any two strings.
  Lengths count the characters of the model's strings, as \<^verbatim>\<open>length\<close> counts the units
  of the source's.
\<close>

theorem notification_body_truncation:
  assumes "permission e = Granted" and "\<not> constructorThrows e" and "title j = Some t"
  shows "(let d = (case description j of
                     None \<Rightarrow> ''No description available''
                   | Some x \<Rightarrow> if x = [] then ''No description available'' else x)
          in notifyEach e [j] st =
               Inr (st\<lparr> shown := shown st @
                          [\<lparr> ntitle = ''New Strong Match Job!'',
                             body = ''Details: ''
                                      @ (if length t \<le> 100 then t else take 100 t @ ''...'')
                                      @ [CHR 0x0A, CHR 0x0A]
                                      @ (if length d \<le> 200 then d else take 200 d @ ''...''),
                             icon = ''/logo.png'',
                             tag = ''new-job-notification'',
                             silent = False \<rparr>],
                        toasts := toasts st @
                          [NewStrongMatchJob
                             (Some (if length t \<le> 100 then t else take 100 t @ ''...''))] \<rparr>)) \<and>
         showNotification e (Some t) d' st =
           Inr (st\<lparr> shown := shown st @
                      [\<lparr> ntitle = ''New Strong Match Job!'',
                         body = ''Details: ''
                                  @ (if length t \<le> 100 then t else take 100 t @ ''...'')
                                  @ [CHR 0x0A, CHR 0x0A]
                                  @ (if length d' \<le> 200 then d' else take 200 d' @ ''...''),
                         icon = ''/logo.png'',
                         tag = ''new-job-notification'',
                         silent = False \<rparr>],
                    toasts := toasts st @
                      [NewStrongMatchJob
                         (Some (if length t \<le> 100 then t else take 100 t @ ''...''))] \<rparr>) \<and>
         length (take 100 t) \<le> 100 \<and> length (take 200 d') \<le> 200"
  using assms
  by (simp add: showNotification_def Let_def truncatedTitle_def truncatedDescription_def
        descriptionOrDefault_def split: option.splits)

text \<open>The theorem on an item with a title of 101 and a description of 201 characters, and
  on job 1, whose title and description are short.\<close>

theorem notification_body_truncation_witness:
  "permission env_granted = Granted \<and> \<not> constructorThrows env_granted \<and>
   (case notifyEach env_granted
           [\<lparr> job_id = IdNum 7, title = Some (replicate 101 CHR ''x''),
              description = Some (replicate 201 CHR ''y''), status = ''active'' \<rparr>]
           (initial_state env_granted (Some ''true'')) of
      Inl x \<Rightarrow> []
    | Inr s \<Rightarrow> map body (shown s)) =
     [''Details: '' @ replicate 100 CHR ''x'' @ ''...'' @ [CHR 0x0A, CHR 0x0A]
        @ replicate 200 CHR ''y'' @ ''...''] \<and>
   (case notifyEach env_granted [job_a] (initial_state env_granted (Some ''true'')) of
      Inl x \<Rightarrow> []
    | Inr s \<Rightarrow> map body (shown s)) = [''Details: A'' @ [CHR 0x0A, CHR 0x0A] @ ''a'']"
proof -
  have h1: "permission env_granted = Granted" and h2: "\<not> constructorThrows env_granted"
    by (simp_all add: env_granted_def)
  have t1: "title \<lparr> job_id = IdNum 7, title = Some (replicate 101 CHR ''x''),
              description = Some (replicate 201 CHR ''y''), status = ''active'' \<rparr>
            = Some (replicate 101 CHR ''x'')"
    by simp
  have t2: "title job_a = Some ''A''" by (simp add: job_a_def)
  note long = notification_body_truncation
    [OF h1 h2 t1, of "initial_state env_granted (Some ''true'')", THEN conjunct1, unfolded Let_def]
  note short = notification_body_truncation
    [OF h1 h2 t2, of "initial_state env_granted (Some ''true'')", THEN conjunct1, unfolded Let_def]
  show ?thesis
    using h1 h2 by (simp add: long short del: notifyEach.simps) (simp add: job_a_def initial_state_def)
qed

text \<open>
  C8, the claim as stated fails: a new job whose description is the empty string, which
  is at most 200 characters long, is alerted on with the body
  "Details: E", an empty line and "No description available", not with its description
  unmodified.
\<close>

theorem empty_description_is_replaced:
  "description job_e = Some [] \<and>
   (let st1 = fetchJobsByRelevance env_granted Strong False (Inr [job_a])
                (initial_state env_granted (Some ''true''));
        st2 = fetchJobsByRelevance env_granted Strong True (Inr [job_a, job_e]) st1
    in map body (shown st2) =
         [''Details: E'' @ [CHR 0x0A, CHR 0x0A] @ ''No description available''] \<and>
       map body (shown st2) \<noteq> [''Details: E'' @ [CHR 0x0A, CHR 0x0A] @ []])"
  by (simp add: ex_defs run_defs)

section \<open>Notifications disabled\<close>

text \<open>
  C9. While notifications are disabled, a run of fetch cycles (manual refreshes and
  timer ticks, in any order, with any answers of the server) shows no native
  notification and adds no toast other than the "API Unavailable" warning of a failed
  manual fetch, so no new-job toast and no summary toast; notifications stay disabled;
  and the feed still follows the data: after a manual refresh that succeeds the feed is
  the fetched snapshot, and a strong-match fetch called directly, polling or not, adds
  nothing to the logs and updates the feed as \<^verbatim>\<open>setJobs\<close> prescribes.
\<close>

theorem disabled_never_notifies:
  assumes "\<not> notificationsEnabled st"
  shows "shown (runCycles e cs st) = shown st \<and>
         filter (\<lambda>t. t \<noteq> ApiUnavailable) (toasts (runCycles e cs st)) =
           filter (\<lambda>t. t \<noteq> ApiUnavailable) (toasts st) \<and>
         notificationsEnabled (runCycles e cs st) = False \<and>
         jobs (runCycles e (cs @ [ManualRefresh (Inr S)]) st) = S \<and>
         toasts (fetchJobsByRelevance e Strong p (Inr S) st) = toasts st \<and>
         shown (fetchJobsByRelevance e Strong p (Inr S) st) = shown st \<and>
         jobs (fetchJobsByRelevance e Strong p (Inr S) st) = updateJobs Strong p S (jobs st)"
proof -
  note run = runCycles_disabled [OF assms, of e cs]
  from run have d: "\<not> notificationsEnabled (runCycles e cs st)" by simp
  have feed: "jobs (runCycles e (cs @ [ManualRefresh (Inr S)]) st) = S"
    by (simp add: runCycles_append manual_refresh_jobs [OF d])
  from run feed fetch_disabled(2,3,4) [OF assms, of e p S] show ?thesis by simp
qed

text \<open>The theorem on a session that starts with nothing in local storage: three
  refreshes, one of them failing, and a tick; each successful refresh carries a new
  id.\<close>

theorem disabled_never_notifies_witness:
  "\<not> notificationsEnabled (initial_state env_granted None) \<and>
   (let st' = runCycles env_granted
                [ManualRefresh (Inr [job_a]), PollTick (Inr [job_a, job_b]),
                 ManualRefresh (Inl TransportFailure), ManualRefresh (Inr [job_a, job_b, job_c])]
                (initial_state env_granted None)
    in shown st' = [] \<and> toasts st' = [ApiUnavailable] \<and> jobs st' = [job_a, job_b, job_c])"
proof -
  have h: "\<not> notificationsEnabled (initial_state env_granted None)"
    by (simp add: initial_state_def)
  show ?thesis
    using h
      disabled_never_notifies [OF h, of env_granted
            "[ManualRefresh (Inr [job_a]), PollTick (Inr [job_a, job_b]),
              ManualRefresh (Inl TransportFailure)]" "[job_a, job_b, job_c]"]
    by (simp add: ex_defs run_defs)
qed

end
